theory Spec2Isabelle
  imports Complex_Main "HOL-Library.Sublist" "HOL-Library.AList" "HOL-Library.Multiset"
begin

section \<open>JavaScript values\<close>

text \<open>
  The provider layer passes untyped objects around (\<^verbatim>\<open>response: any\<close>, the body of a
  \<^verbatim>\<open>fetch\<close> parsed by \<^verbatim>\<open>response.json()\<close>). They are modelled as a datatype of
  JavaScript values: an object is the list of its own properties, in insertion order and
  with distinct keys. Numbers are rationals: the code only tests them for truthiness and
  passes them on.
\<close>

datatype jsval =
    JUndefined
  | JNull
  | JBool bool
  | JNum rat
  | JStr string
  | JArr "jsval list"
  | JObj "(string \<times> jsval) list"

datatype js_error = Error string | TypeError string

text \<open>Truthiness, as \<^verbatim>\<open>||\<close> and \<^verbatim>\<open>? :\<close> test it.\<close>

fun truthy :: "jsval \<Rightarrow> bool" where
  "truthy JUndefined = False"
| "truthy JNull = False"
| "truthy (JBool b) = b"
| "truthy (JNum n) = (n \<noteq> 0)"
| "truthy (JStr s) = (s \<noteq> [])"
| "truthy (JArr xs) = True"
| "truthy (JObj kvs) = True"

text \<open>\<^verbatim>\<open>a || b\<close>\<close>

definition js_or :: "jsval \<Rightarrow> jsval \<Rightarrow> jsval" where
  "js_or a b = (if truthy a then a else b)"

text \<open>
  \<^verbatim>\<open>v.k\<close>: reading a property of \<^verbatim>\<open>undefined\<close> or \<^verbatim>\<open>null\<close> throws a TypeError; an object
  gives its own property or \<^verbatim>\<open>undefined\<close>; arrays and strings have a \<^verbatim>\<open>length\<close>; every
  other read gives \<^verbatim>\<open>undefined\<close> (the code reads no inherited method).
\<close>

fun get_prop :: "jsval \<Rightarrow> string \<Rightarrow> js_error + jsval" where
  "get_prop JUndefined k = Inl (TypeError (''Cannot read properties of undefined (reading '' @ k @ '')''))"
| "get_prop JNull k = Inl (TypeError (''Cannot read properties of null (reading '' @ k @ '')''))"
| "get_prop (JObj kvs) k = Inr (case map_of kvs k of None \<Rightarrow> JUndefined | Some v \<Rightarrow> v)"
| "get_prop (JArr xs) k = Inr (if k = ''length'' then JNum (of_nat (length xs)) else JUndefined)"
| "get_prop (JStr s) k = Inr (if k = ''length'' then JNum (of_nat (length s)) else JUndefined)"
| "get_prop (JBool b) k = Inr JUndefined"
| "get_prop (JNum n) k = Inr JUndefined"

text \<open>\<^verbatim>\<open>v?.k\<close>: \<^verbatim>\<open>undefined\<close> when \<^verbatim>\<open>v\<close> is \<^verbatim>\<open>undefined\<close> or \<^verbatim>\<open>null\<close>, and it never throws.\<close>

fun get_prop_opt :: "jsval \<Rightarrow> string \<Rightarrow> jsval" where
  "get_prop_opt (JObj kvs) k = (case map_of kvs k of None \<Rightarrow> JUndefined | Some v \<Rightarrow> v)"
| "get_prop_opt (JArr xs) k = (if k = ''length'' then JNum (of_nat (length xs)) else JUndefined)"
| "get_prop_opt (JStr s) k = (if k = ''length'' then JNum (of_nat (length s)) else JUndefined)"
| "get_prop_opt v k = JUndefined"

text \<open>\<^verbatim>\<open>v?.[0]\<close>\<close>

fun get_first_opt :: "jsval \<Rightarrow> jsval" where
  "get_first_opt (JArr xs) = (case xs of [] \<Rightarrow> JUndefined | x # _ \<Rightarrow> x)"
| "get_first_opt (JStr s) = (case s of [] \<Rightarrow> JUndefined | c # _ \<Rightarrow> JStr [c])"
| "get_first_opt (JObj kvs) = (case map_of kvs ''0'' of None \<Rightarrow> JUndefined | Some v \<Rightarrow> v)"
| "get_first_opt v = JUndefined"

section \<open>Model families (bedrock-provider.ts)\<close>

text \<open>
  \<^verbatim>\<open>String.prototype.toLowerCase\<close> on the ASCII letters, which is all a Bedrock model
  identifier contains.
\<close>

definition lower_char :: "char \<Rightarrow> char" where
  "lower_char c =
     (let n = (of_char c :: nat) in if 65 \<le> n \<and> n \<le> 90 then char_of (n + 32) else c)"

definition toLowerCase :: "string \<Rightarrow> string" where
  "toLowerCase s = map lower_char s"

text \<open>\<^verbatim>\<open>s.includes(t)\<close>: \<^verbatim>\<open>t\<close> occurs in \<^verbatim>\<open>s\<close> as a contiguous substring.\<close>

fun str_includes :: "string \<Rightarrow> string \<Rightarrow> bool" where
  "str_includes [] t = (t = [])"
| "str_includes (c # s) t = (prefix t (c # s) \<or> str_includes s t)"

text \<open>
  \<^verbatim>\<open>getModelFamily()\<close>; its argument is \<^verbatim>\<open>this.config.modelId\<close>. The five checks run in
  the order of the source and the first hit decides.
\<close>

definition getModelFamily :: "string \<Rightarrow> string" where
  "getModelFamily configModelId =
     (let modelId = toLowerCase configModelId in
      if str_includes modelId ''claude'' then ''claude''
      else if str_includes modelId ''llama'' then ''llama''
      else if str_includes modelId ''titan'' then ''titan''
      else if str_includes modelId ''jurassic'' then ''ai21''
      else if str_includes modelId ''cohere'' then ''cohere''
      else ''generic'')"

text \<open>
  The same cascade over an arbitrary list of checks (substring, family), to state what
  re-ordering the checks does. \<open>vendor_checks\<close> is the order of the source.
\<close>

fun classify_with :: "(string \<times> string) list \<Rightarrow> string \<Rightarrow> string" where
  "classify_with [] modelId = ''generic''"
| "classify_with ((tag, family) # checks) modelId =
     (if str_includes modelId tag then family else classify_with checks modelId)"

definition vendor_checks :: "(string \<times> string) list" where
  "vendor_checks =
     [(''claude'', ''claude''), (''llama'', ''llama''), (''titan'', ''titan''),
      (''jurassic'', ''ai21''), (''cohere'', ''cohere'')]"

definition matching_checks :: "string \<Rightarrow> (string \<times> string) list \<Rightarrow> (string \<times> string) list" where
  "matching_checks modelId checks = filter (\<lambda>(tag, family). str_includes modelId tag) checks"

section \<open>Response normalisation (bedrock-provider.ts, provider-manager.ts)\<close>

text \<open>Sequencing of computations that may throw: the first exception wins.\<close>

definition sum_bind :: "'e + 'a \<Rightarrow> ('a \<Rightarrow> 'e + 'b) \<Rightarrow> 'e + 'b" where
  "sum_bind m f = (case m of Inl e \<Rightarrow> Inl e | Inr x \<Rightarrow> f x)"

text \<open>
  \<^verbatim>\<open>parseResponse(response)\<close>. \<open>configModelId\<close> is \<^verbatim>\<open>this.config.modelId\<close> and \<open>now\<close> is
  \<^verbatim>\<open>new Date().toISOString()\<close>. The result is the object literal the source builds; only the
  \<^verbatim>\<open>claude\<close> branch copies \<^verbatim>\<open>usage\<close>. The families \<^verbatim>\<open>ai21\<close>, \<^verbatim>\<open>cohere\<close> and \<^verbatim>\<open>generic\<close> take
  the \<^verbatim>\<open>default\<close> branch of the switch.
\<close>

definition parseResponse :: "string \<Rightarrow> string \<Rightarrow> jsval \<Rightarrow> js_error + jsval" where
  "parseResponse configModelId now response =
     (let modelFamily = getModelFamily configModelId in
      if modelFamily = ''claude'' then
        sum_bind (get_prop response ''completion'') (\<lambda>completion.
        sum_bind (get_prop response ''stop_reason'') (\<lambda>stop_reason.
        sum_bind (get_prop response ''usage'') (\<lambda>usage.
          Inr (JObj [(''completion'', completion),
                     (''stop_reason'', stop_reason),
                     (''usage'', usage),
                     (''model'', JStr configModelId),
                     (''timestamp'', JStr now)]))))
      else if modelFamily = ''llama'' then
        sum_bind (get_prop response ''generation'') (\<lambda>generation.
        sum_bind (get_prop response ''stop_reason'') (\<lambda>stop_reason.
          Inr (JObj [(''completion'', generation),
                     (''stop_reason'', js_or stop_reason (JStr ''end_turn'')),
                     (''model'', JStr configModelId),
                     (''timestamp'', JStr now)])))
      else if modelFamily = ''titan'' then
        sum_bind (get_prop response ''results'') (\<lambda>results.
          Inr (JObj [(''completion'',
                        js_or (get_prop_opt (get_first_opt results) ''outputText'') (JStr '''')),
                     (''stop_reason'',
                        js_or (get_prop_opt (get_first_opt results) ''completionReason'')
                              (JStr ''finished'')),
                     (''model'', JStr configModelId),
                     (''timestamp'', JStr now)]))
      else
        sum_bind (get_prop response ''completion'') (\<lambda>completion.
        sum_bind (get_prop response ''text'') (\<lambda>text.
        sum_bind (get_prop response ''stop_reason'') (\<lambda>stop_reason.
          Inr (JObj [(''completion'', js_or (js_or completion text) (JStr '''')),
                     (''stop_reason'', js_or stop_reason (JStr ''finished'')),
                     (''model'', JStr configModelId),
                     (''timestamp'', JStr now)])))))"

datatype AIProviderType = Bedrock | OpenAI | Claude | Azure | Local

record Metadata =
  stopReason :: jsval
  originalResponse :: jsval

record AIResponse =
  content :: jsval
  usage :: jsval
  model :: jsval
  provider :: AIProviderType
  timestamp :: jsval
  metadata :: Metadata

text \<open>\<^verbatim>\<open>standardizeResponse(response, provider)\<close>; \<open>now\<close> is \<^verbatim>\<open>new Date().toISOString()\<close>.\<close>

definition standardizeResponse :: "jsval \<Rightarrow> AIProviderType \<Rightarrow> string \<Rightarrow> js_error + AIResponse" where
  "standardizeResponse response prov now =
     sum_bind (get_prop response ''completion'') (\<lambda>completion.
     sum_bind (get_prop response ''content'') (\<lambda>content'.
     sum_bind (get_prop response ''text'') (\<lambda>text.
     sum_bind (get_prop response ''usage'') (\<lambda>usage'.
     sum_bind (get_prop response ''model'') (\<lambda>model'.
     sum_bind (get_prop response ''timestamp'') (\<lambda>timestamp'.
     sum_bind (get_prop response ''stop_reason'') (\<lambda>stop_reason.
       Inr \<lparr> content = js_or (js_or (js_or completion content') text) (JStr ''''),
             usage = usage',
             model = js_or model' (JStr ''unknown''),
             provider = prov,
             timestamp = js_or timestamp' (JStr now),
             metadata = \<lparr> stopReason = stop_reason, originalResponse = response \<rparr> \<rparr>)))))))"

text \<open>
  The normalisation of a wire response, as \<^verbatim>\<open>BedrockProvider.generateResponse\<close> and
  \<^verbatim>\<open>AIProviderManager.generateResponse\<close> compose it: \<^verbatim>\<open>parseResponse\<close>, then
  \<^verbatim>\<open>standardizeResponse\<close>. \<open>t1\<close> and \<open>t2\<close> are the clock readings of the two steps.
\<close>

definition normalize_response ::
  "string \<Rightarrow> string \<Rightarrow> string \<Rightarrow> AIProviderType \<Rightarrow> jsval \<Rightarrow> js_error + AIResponse" where
  "normalize_response configModelId t1 t2 prov wire =
     sum_bind (parseResponse configModelId t1 wire) (\<lambda>response.
       standardizeResponse response prov t2)"

text \<open>
  The wire field that carries the output text of a family, and the one that carries its
  finish reason, are absent (they read as \<^verbatim>\<open>undefined\<close>). The field names are those that
  \<^verbatim>\<open>parseResponse\<close> reads for the family.
\<close>

definition text_field_absent :: "string \<Rightarrow> jsval \<Rightarrow> bool" where
  "text_field_absent family wire =
     (if family = ''claude'' then get_prop wire ''completion'' = Inr JUndefined
      else if family = ''llama'' then get_prop wire ''generation'' = Inr JUndefined
      else if family = ''titan'' then
        (case get_prop wire ''results'' of
           Inl e \<Rightarrow> False
         | Inr results \<Rightarrow> get_prop_opt (get_first_opt results) ''outputText'' = JUndefined)
      else get_prop wire ''completion'' = Inr JUndefined \<and> get_prop wire ''text'' = Inr JUndefined)"

definition finish_field_absent :: "string \<Rightarrow> jsval \<Rightarrow> bool" where
  "finish_field_absent family wire =
     (if family = ''titan'' then
        (case get_prop wire ''results'' of
           Inl e \<Rightarrow> False
         | Inr results \<Rightarrow> get_prop_opt (get_first_opt results) ''completionReason'' = JUndefined)
      else get_prop wire ''stop_reason'' = Inr JUndefined)"

section \<open>The provider manager and its failover (provider-manager.ts)\<close>

type_synonym js_object = "(string \<times> jsval) list"

text \<open>
  The state of \<^verbatim>\<open>AIProviderManager\<close>. \<open>providers\<close> is the key set of the \<^verbatim>\<open>providers\<close> map:
  the instances stored there are of type \<^verbatim>\<open>any\<close>, and what a call of one returns is given
  by an oracle below. \<open>configs\<close> maps a provider to its configuration object.
\<close>

record AIProviderManager =
  currentProvider :: AIProviderType
  providers :: "AIProviderType set"
  configs :: "AIProviderType \<rightharpoonup> js_object"
  fallbackProviders :: "AIProviderType list"

fun provider_type_string :: "AIProviderType \<Rightarrow> string" where
  "provider_type_string Bedrock = ''bedrock''"
| "provider_type_string OpenAI = ''openai''"
| "provider_type_string Claude = ''claude''"
| "provider_type_string Azure = ''azure''"
| "provider_type_string Local = ''local''"

text \<open>
  The outside world: \<open>env n p\<close> is what \<^verbatim>\<open>provider.generateResponse(prompt, context)\<close> does
  when it is the \<open>n\<close>-th call of \<^verbatim>\<open>AIProviderManager.generateResponse\<close> of the run and the
  provider is \<open>p\<close>: it throws (\<open>Inl\<close>) or returns a response object (\<open>Inr\<close>). The manager is
  deterministic given these outcomes, so a statement for all oracles covers all runs; the
  prompt and the context are passed through unchanged and do not appear.
\<close>

type_synonym provider_oracle = "nat \<Rightarrow> AIProviderType \<Rightarrow> js_error + jsval"

text \<open>
  The \<^verbatim>\<open>try\<close> block of \<^verbatim>\<open>generateResponse\<close>: the lookup in \<^verbatim>\<open>this.providers\<close>, the call of the
  provider (\<^verbatim>\<open>callProvider\<close>; every instance has the method \<^verbatim>\<open>generateResponse\<close>), and
  \<^verbatim>\<open>standardizeResponse\<close>.
\<close>

definition attempt ::
  "provider_oracle \<Rightarrow> string \<Rightarrow> AIProviderManager \<Rightarrow> nat \<Rightarrow> AIProviderType
     \<Rightarrow> js_error + AIResponse" where
  "attempt env now m n prov =
     (if prov \<notin> providers m
      then Inl (Error (''Provider '' @ provider_type_string prov @ '' not initialized''))
      else sum_bind (env n prov) (\<lambda>response. standardizeResponse response prov now))"

text \<open>
  \<^verbatim>\<open>generateResponse\<close> and \<^verbatim>\<open>tryFallbackProviders\<close> call each other, so they are one
  function over the two kinds of call. \<open>TryFallbackProviders rest\<close> is the \<^verbatim>\<open>for\<close> loop of
  \<^verbatim>\<open>tryFallbackProviders\<close> with the providers \<open>rest\<close> still to visit. The trace \<open>tr\<close> records,
  in order, the provider of every \<^verbatim>\<open>generateResponse\<close> call made so far; the function
  returns the result (the thrown error or the response) with the final trace. The recursion
  need not end: \<open>None\<close> is a run that never returns.
\<close>

datatype call =
    GenerateResponse "AIProviderType option"
  | TryFallbackProviders "AIProviderType list"

partial_function (option) exec ::
  "provider_oracle \<Rightarrow> string \<Rightarrow> AIProviderManager \<Rightarrow> call \<Rightarrow> AIProviderType list
     \<Rightarrow> ((js_error + AIResponse) \<times> AIProviderType list) option" where
  "exec env now m c tr =
     (case c of
        GenerateResponse useProvider \<Rightarrow>
          (let prov = (case useProvider of Some p \<Rightarrow> p | None \<Rightarrow> currentProvider m) in
           case attempt env now m (length tr) prov of
             Inr response \<Rightarrow> Some (Inr response, tr @ [prov])
           | Inl error \<Rightarrow>
               if length (fallbackProviders m) > 0
               then exec env now m (TryFallbackProviders (fallbackProviders m)) (tr @ [prov])
               else Some (Inl error, tr @ [prov]))
      | TryFallbackProviders [] \<Rightarrow>
          Some (Inl (Error ''All providers failed, including fallbacks''), tr)
      | TryFallbackProviders (fallbackProvider # rest) \<Rightarrow>
          Option.bind (exec env now m (GenerateResponse (Some fallbackProvider)) tr)
            (\<lambda>(result, tr').
               case result of
                 Inr response \<Rightarrow> Some (Inr response, tr')
               | Inl error \<Rightarrow> exec env now m (TryFallbackProviders rest) tr'))"

text \<open>\<^verbatim>\<open>generateResponse(prompt, context, options)\<close> as a caller invokes it.\<close>

definition generateResponse ::
  "provider_oracle \<Rightarrow> string \<Rightarrow> AIProviderManager \<Rightarrow> AIProviderType option
     \<Rightarrow> ((js_error + AIResponse) \<times> AIProviderType list) option" where
  "generateResponse env now m useProvider = exec env now m (GenerateResponse useProvider) []"

text \<open>\<^verbatim>\<open>options?.useProvider || this.currentProvider\<close>\<close>

definition primary_provider :: "AIProviderManager \<Rightarrow> AIProviderType option \<Rightarrow> AIProviderType" where
  "primary_provider m useProvider =
     (case useProvider of Some p \<Rightarrow> p | None \<Rightarrow> currentProvider m)"

text \<open>
  Example runs. The manager has the Bedrock provider and the OpenAI placeholder of
  \<^verbatim>\<open>setupOpenAIProvider\<close>, which always answers; the fallback chain is Bedrock, then OpenAI;
  the caller asks for the Azure provider, which was never set up.
\<close>

definition example_manager :: AIProviderManager where
  "example_manager =
     \<lparr> currentProvider = Bedrock,
       providers = {Bedrock, OpenAI},
       configs = Map.empty,
       fallbackProviders = [Bedrock, OpenAI] \<rparr>"

definition openai_placeholder :: jsval where
  "openai_placeholder =
     JObj [(''completion'', JStr ''OpenAI response placeholder''),
           (''model'', JStr ''gpt-4''),
           (''timestamp'', JStr ''2024-05-01T00:00:00.000Z'')]"

text \<open>Bedrock is unreachable for the whole run.\<close>

definition bedrock_down :: provider_oracle where
  "bedrock_down n p =
     (if p = Bedrock then Inl (Error ''Failed to generate response: fetch failed'')
      else Inr openai_placeholder)"

text \<open>Bedrock is unreachable for its first two calls and answers from then on.\<close>

definition bedrock_recovers :: provider_oracle where
  "bedrock_recovers n p =
     (if p = Bedrock then
        (if n < 3 then Inl (Error ''Failed to generate response: fetch failed'')
         else Inr (JObj [(''completion'', JStr ''ok''),
                         (''stop_reason'', JStr ''stop_sequence''),
                         (''usage'', JUndefined),
                         (''model'', JStr ''anthropic.claude-v2:1''),
                         (''timestamp'', JStr ''2024-05-01T00:00:00.000Z'')]))
      else Inr openai_placeholder)"

text \<open>Only Bedrock is set up and it is the whole fallback chain.\<close>

definition bedrock_only_manager :: AIProviderManager where
  "bedrock_only_manager =
     \<lparr> currentProvider = Bedrock,
       providers = {Bedrock},
       configs = Map.empty,
       fallbackProviders = [Bedrock] \<rparr>"

section \<open>Provider status (provider-manager.ts)\<close>

text \<open>
  One entry of the record that \<^verbatim>\<open>getProviderStatus\<close> returns: \<open>Status healthy model lastTested
  config\<close> from the \<^verbatim>\<open>try\<close> block, \<open>StatusError error lastTested\<close> (with \<^verbatim>\<open>healthy: false\<close>
  and no \<^verbatim>\<open>config\<close> field) from the \<^verbatim>\<open>catch\<close> block.
\<close>

datatype ProviderStatus =
    Status bool jsval string js_object
  | StatusError string string

text \<open>The \<^verbatim>\<open>config\<close> field of a status entry, when it has one.\<close>

fun status_config :: "ProviderStatus \<Rightarrow> js_object option" where
  "status_config (Status isHealthy mdl lastTested cfg) = Some cfg"
| "status_config (StatusError msg lastTested) = None"

text \<open>\<^verbatim>\<open>error instanceof Error ? error.message : 'Unknown error'\<close>; both kinds are Errors.\<close>

fun js_error_message :: "js_error \<Rightarrow> string" where
  "js_error_message (Error msg) = msg"
| "js_error_message (TypeError msg) = msg"

text \<open>\<^verbatim>\<open>config?.k\<close> for a configuration that may be \<^verbatim>\<open>undefined\<close>.\<close>

definition opt_field :: "js_object option \<Rightarrow> string \<Rightarrow> jsval" where
  "opt_field config k = (case config of None \<Rightarrow> JUndefined | Some c \<Rightarrow> get_prop_opt (JObj c) k)"

text \<open>
  \<^verbatim>\<open>{...config, apiKey: config?.apiKey ? '***masked***' : undefined, secretAccessKey: ...}\<close>:
  the spread copies the properties of \<^verbatim>\<open>config\<close> in order (none when it is \<^verbatim>\<open>undefined\<close>), and
  each of the two keys overwrites the property in place or is appended.
\<close>

definition mask_secrets :: "js_object option \<Rightarrow> js_object" where
  "mask_secrets config =
     AList.update ''secretAccessKey''
       (if truthy (opt_field config ''secretAccessKey'') then JStr ''***masked***'' else JUndefined)
       (AList.update ''apiKey''
          (if truthy (opt_field config ''apiKey'') then JStr ''***masked***'' else JUndefined)
          (case config of None \<Rightarrow> [] | Some c \<Rightarrow> c))"

text \<open>
  \<^verbatim>\<open>getProviderStatus()\<close>. \<open>testConnection p\<close> is what \<^verbatim>\<open>provider.testConnection?.()\<close> does for
  the provider \<open>p\<close>: it throws or returns a boolean. \<open>now\<close> is \<^verbatim>\<open>new Date().toISOString()\<close>.
  The result has an entry for each key of the \<^verbatim>\<open>providers\<close> map.
\<close>

definition getProviderStatus ::
  "(AIProviderType \<Rightarrow> js_error + bool) \<Rightarrow> string \<Rightarrow> AIProviderManager
     \<Rightarrow> AIProviderType \<rightharpoonup> ProviderStatus" where
  "getProviderStatus testConnection now m =
     (\<lambda>providerType.
        if providerType \<in> providers m then
          Some (case testConnection providerType of
                  Inr isHealthy \<Rightarrow>
                    (let config = configs m providerType in
                     Status isHealthy (js_or (opt_field config ''modelId'') (JStr ''unknown'')) now
                       (mask_secrets config))
                | Inl error \<Rightarrow> StatusError (js_error_message error) now)
        else None)"

text \<open>
  Two configuration objects with the same keys in the same order and the same values,
  except that the value of \<^verbatim>\<open>apiKey\<close> or of \<^verbatim>\<open>secretAccessKey\<close> may differ where it is set
  (truthy) in both.
\<close>

definition is_secret :: "string \<Rightarrow> bool" where
  "is_secret k = (k = ''apiKey'' \<or> k = ''secretAccessKey'')"

definition same_up_to_set_secrets :: "js_object \<Rightarrow> js_object \<Rightarrow> bool" where
  "same_up_to_set_secrets c1 c2 =
     list_all2 (\<lambda>(k1, v1) (k2, v2). k1 = k2 \<and> (v1 = v2 \<or> is_secret k1 \<and> truthy v1 \<and> truthy v2)) c1 c2"

text \<open>Two objects with the same keys that agree on the values of the keys outside \<open>S\<close>.\<close>

definition eq_outside :: "string set \<Rightarrow> js_object \<Rightarrow> js_object \<Rightarrow> bool" where
  "eq_outside S c1 c2 = list_all2 (\<lambda>a b. fst a = fst b \<and> (fst a \<notin> S \<longrightarrow> snd a = snd b)) c1 c2"


text \<open>
  What the status shows in place of the secret \<open>k\<close> of a configuration: the constant
  \<^verbatim>\<open>'***masked***'\<close> when the secret is set, \<^verbatim>\<open>undefined\<close> when it is not.
\<close>

definition shown_secret :: "js_object option \<Rightarrow> string \<Rightarrow> jsval" where
  "shown_secret config k =
     (if truthy (opt_field config k) then JStr ''***masked***'' else JUndefined)"

text \<open>
  A manager with a Bedrock configuration that holds the secret access key \<open>s\<close> and an OpenAI
  configuration that holds the API key \<open>k\<close>.
\<close>

definition bedrock_secret_config :: "string \<Rightarrow> js_object" where
  "bedrock_secret_config s =
     [(''region'', JStr ''us-east-1''),
      (''secretAccessKey'', JStr s),
      (''modelId'', JStr ''anthropic.claude-v2:1'')]"

definition openai_secret_config :: "string \<Rightarrow> js_object" where
  "openai_secret_config k =
     [(''provider'', JStr ''openai''),
      (''modelId'', JStr ''gpt-4''),
      (''apiKey'', JStr k),
      (''privacyMode'', JBool False)]"

definition secret_manager :: "string \<Rightarrow> string \<Rightarrow> AIProviderManager" where
  "secret_manager s k =
     \<lparr> currentProvider = Bedrock,
       providers = {Bedrock, OpenAI},
       configs = [Bedrock \<mapsto> bedrock_secret_config s, OpenAI \<mapsto> openai_secret_config k],
       fallbackProviders = [] \<rparr>"

section \<open>The Bedrock provider's state (bedrock-provider.ts)\<close>

text \<open>
  \<^verbatim>\<open>getConfig\<close> is about object identity, so the provider's objects live in a store: an
  address is an index into the list of allocated objects, and a new object is appended. A
  configuration object holds its \<^verbatim>\<open>stopSequences\<close> array by reference. Strings and numbers are
  immutable values and are held directly.
\<close>

type_synonym ref = nat

record BedrockConfig =
  region :: string
  accessKeyId :: "string option"
  secretAccessKey :: "string option"
  sessionToken :: "string option"
  modelId :: string
  maxTokens :: rat
  temperature :: rat
  topP :: "rat option"
  stopSequences :: "ref option"

datatype heap_obj = ConfigObj BedrockConfig | ArrayObj "string list"

type_synonym heap = "heap_obj list"

text \<open>Reading an address; \<open>None\<close> for an address that was never allocated.\<close>

definition heap_get :: "heap \<Rightarrow> ref \<Rightarrow> heap_obj option" where
  "heap_get h r = (if r < length h then Some (h ! r) else None)"

definition config_at :: "heap \<Rightarrow> ref \<Rightarrow> BedrockConfig option" where
  "config_at h r = (case heap_get h r of Some (ConfigObj c) \<Rightarrow> Some c | _ \<Rightarrow> None)"

definition array_at :: "heap \<Rightarrow> ref \<Rightarrow> string list option" where
  "array_at h r = (case heap_get h r of Some (ArrayObj xs) \<Rightarrow> Some xs | _ \<Rightarrow> None)"

text \<open>The fields of a \<^verbatim>\<open>BedrockProvider\<close>: \<^verbatim>\<open>this.config\<close> is a reference.\<close>

record BedrockProvider =
  config :: ref
  endpoint :: string

text \<open>The constructor keeps the reference it is given and derives the endpoint.\<close>

definition new_BedrockProvider :: "heap \<Rightarrow> ref \<Rightarrow> BedrockProvider option" where
  "new_BedrockProvider h cfg =
     map_option (\<lambda>c. \<lparr> config = cfg,
                        endpoint = ''https://bedrock-runtime.'' @ region c @ ''.amazonaws.com'' \<rparr>)
       (config_at h cfg)"

text \<open>
  A \<^verbatim>\<open>BedrockRequest\<close>, observed at the moment it is built: \<open>req_stopSequences\<close> holds the
  contents of the array that the request refers to, which is what \<^verbatim>\<open>formatRequestBody\<close> and
  \<^verbatim>\<open>JSON.stringify\<close> send.
\<close>

record BedrockRequest =
  req_prompt :: string
  req_modelId :: string
  req_maxTokens :: rat
  req_temperature :: rat
  req_topP :: "rat option"
  req_stopSequences :: "string list option"
  req_anthropicVersion :: "string option"

text \<open>\<^verbatim>\<open>this.config.topP || 0.9\<close>\<close>

definition topP_or_default :: "BedrockConfig \<Rightarrow> rat" where
  "topP_or_default c = (case topP c of None \<Rightarrow> 9 / 10 | Some t \<Rightarrow> if t = 0 then 9 / 10 else t)"

definition nl :: char where "nl = CHR 0x0A"

text \<open>
  The four request builders. They return \<open>None\<close> only when the configuration refers to an
  array that is not in the store, which no JavaScript state does.
\<close>

definition buildClaudeRequest :: "heap \<Rightarrow> BedrockConfig \<Rightarrow> string \<Rightarrow> BedrockRequest option" where
  "buildClaudeRequest h c prompt =
     map_option
       (\<lambda>stops. \<lparr> req_prompt = [nl, nl] @ ''Human: '' @ prompt @ [nl, nl] @ ''Assistant:'',
                   req_modelId = modelId c,
                   req_maxTokens = maxTokens c,
                   req_temperature = temperature c,
                   req_topP = Some (topP_or_default c),
                   req_stopSequences = Some stops,
                   req_anthropicVersion = Some ''bedrock-2023-05-31'' \<rparr>)
       (case stopSequences c of
          None \<Rightarrow> Some [[nl, nl] @ ''Human:'']
        | Some a \<Rightarrow> array_at h a)"

definition buildLlamaRequest :: "heap \<Rightarrow> BedrockConfig \<Rightarrow> string \<Rightarrow> BedrockRequest option" where
  "buildLlamaRequest h c prompt =
     Some \<lparr> req_prompt = ''<s>[INST] '' @ prompt @ '' [/INST]'',
            req_modelId = modelId c,
            req_maxTokens = maxTokens c,
            req_temperature = temperature c,
            req_topP = Some (topP_or_default c),
            req_stopSequences = None,
            req_anthropicVersion = None \<rparr>"

definition buildTitanRequest :: "heap \<Rightarrow> BedrockConfig \<Rightarrow> string \<Rightarrow> BedrockRequest option" where
  "buildTitanRequest h c prompt =
     map_option
       (\<lambda>stops. \<lparr> req_prompt = prompt,
                   req_modelId = modelId c,
                   req_maxTokens = maxTokens c,
                   req_temperature = temperature c,
                   req_topP = Some (topP_or_default c),
                   req_stopSequences = Some stops,
                   req_anthropicVersion = None \<rparr>)
       (case stopSequences c of
          None \<Rightarrow> Some []
        | Some a \<Rightarrow> array_at h a)"

definition buildGenericRequest :: "heap \<Rightarrow> BedrockConfig \<Rightarrow> string \<Rightarrow> BedrockRequest option" where
  "buildGenericRequest h c prompt =
     Some \<lparr> req_prompt = prompt,
            req_modelId = modelId c,
            req_maxTokens = maxTokens c,
            req_temperature = temperature c,
            req_topP = Some (topP_or_default c),
            req_stopSequences = None,
            req_anthropicVersion = None \<rparr>"

text \<open>\<^verbatim>\<open>buildRequest(prompt, context)\<close>: the switch on \<^verbatim>\<open>this.getModelFamily()\<close>.\<close>

definition buildRequest :: "heap \<Rightarrow> BedrockProvider \<Rightarrow> string \<Rightarrow> BedrockRequest option" where
  "buildRequest h this prompt =
     Option.bind (config_at h (config this)) (\<lambda>c.
       let family = getModelFamily (modelId c) in
       if family = ''claude'' then buildClaudeRequest h c prompt
       else if family = ''llama'' then buildLlamaRequest h c prompt
       else if family = ''titan'' then buildTitanRequest h c prompt
       else buildGenericRequest h c prompt)"

text \<open>\<^verbatim>\<open>this.getModelFamily()\<close> on the provider's state.\<close>

definition provider_family :: "heap \<Rightarrow> BedrockProvider \<Rightarrow> string option" where
  "provider_family h this = map_option (\<lambda>c. getModelFamily (modelId c)) (config_at h (config this))"

text \<open>The URL that \<^verbatim>\<open>callBedrock\<close> posts the request to.\<close>

definition callBedrock_endpoint :: "BedrockProvider \<Rightarrow> BedrockRequest \<Rightarrow> string" where
  "callBedrock_endpoint this request = endpoint this @ ''/model/'' @ req_modelId request @ ''/invoke''"

text \<open>
  \<^verbatim>\<open>getConfig()\<close> returns \<^verbatim>\<open>{ ...this.config }\<close>: a new object with the same property values.
  The value of \<^verbatim>\<open>stopSequences\<close> is a reference, so the new object refers to the same array.
\<close>

definition getConfig :: "heap \<Rightarrow> BedrockProvider \<Rightarrow> (ref \<times> heap) option" where
  "getConfig h this = map_option (\<lambda>c. (length h, h @ [ConfigObj c])) (config_at h (config this))"

text \<open>
  Two ways for a caller to mutate the object at \<open>r\<close>: \<^verbatim>\<open>cfg.stopSequences.push(s)\<close>, which
  changes the array in place, and assignments to the properties of \<^verbatim>\<open>cfg\<close>, after which the
  object holds the values \<open>c\<close>.
\<close>

definition push_stopSequence :: "heap \<Rightarrow> ref \<Rightarrow> string \<Rightarrow> heap option" where
  "push_stopSequence h r s =
     Option.bind (config_at h r) (\<lambda>c.
       case stopSequences c of
         None \<Rightarrow> None
       | Some a \<Rightarrow> map_option (\<lambda>xs. h[a := ArrayObj (xs @ [s])]) (array_at h a))"

definition assign_config :: "heap \<Rightarrow> ref \<Rightarrow> BedrockConfig \<Rightarrow> heap" where
  "assign_config h r c = h[r := ConfigObj c]"

text \<open>The provider's configuration is in the store, and so is the array it refers to.\<close>

definition arrays_allocated :: "heap \<Rightarrow> BedrockProvider \<Rightarrow> bool" where
  "arrays_allocated h this =
     (case config_at h (config this) of
        None \<Rightarrow> False
      | Some c \<Rightarrow> (case stopSequences c of None \<Rightarrow> True | Some a \<Rightarrow> array_at h a \<noteq> None))"

text \<open>A provider for a Claude model with one configured stop sequence.\<close>

definition claude_config :: BedrockConfig where
  "claude_config =
     \<lparr> region = ''us-east-1'', accessKeyId = None, secretAccessKey = None, sessionToken = None,
       modelId = ''anthropic.claude-v2:1'', maxTokens = 2000, temperature = 3 / 10,
       topP = Some (9 / 10), stopSequences = Some 1 \<rparr>"

definition claude_heap :: heap where
  "claude_heap = [ConfigObj claude_config, ArrayObj [''STOP'']]"

definition claude_provider :: BedrockProvider where
  "claude_provider = \<lparr> config = 0, endpoint = ''https://bedrock-runtime.us-east-1.amazonaws.com'' \<rparr>"

section \<open>Usage tracking and cost (aurora-ai-schema.sql)\<close>

text \<open>
  The two PL/pgSQL functions of the schema. An SQL error aborts the function and the
  statement that called it: it is the \<open>Inl\<close> of the result.
\<close>

datatype sql_error =
    case_not_found
  | numeric_value_out_of_range
  | foreign_key_violation

text \<open>
  Assigning to a variable of type \<^verbatim>\<open>DECIMAL(10,6)\<close> rounds the value to six decimals (half
  away from zero) and fails when the rounded value needs more than four integer digits.
\<close>

definition round_half_away :: "rat \<Rightarrow> int" where
  "round_half_away x = (if 0 \<le> x then \<lfloor>x + 1 / 2\<rfloor> else - \<lfloor>- x + 1 / 2\<rfloor>)"

definition to_decimal_10_6 :: "rat \<Rightarrow> sql_error + rat" where
  "to_decimal_10_6 x =
     (let scaled = round_half_away (x * 1000000) in
      if \<bar>scaled\<bar> \<ge> 10000000000 then Inl numeric_value_out_of_range
      else Inr (of_int scaled / 1000000))"

text \<open>A value of type \<^verbatim>\<open>INTEGER\<close>: arithmetic that leaves the 32-bit range fails.\<close>

definition to_integer :: "int \<Rightarrow> sql_error + int" where
  "to_integer x =
     (if - 2147483648 \<le> x \<and> x \<le> 2147483647 then Inr x else Inl numeric_value_out_of_range)"

text \<open>
  \<^verbatim>\<open>calculate_ai_usage_cost\<close>. Both \<^verbatim>\<open>CASE\<close>s are PL/pgSQL \<^verbatim>\<open>CASE\<close> statements (closed by
  \<^verbatim>\<open>END CASE\<close>) without an \<^verbatim>\<open>ELSE\<close> branch: when no \<^verbatim>\<open>WHEN\<close> matches, PL/pgSQL raises
  \<^verbatim>\<open>CASE_NOT_FOUND\<close>, and the \<^verbatim>\<open>RETURN cost\<close> after the statement is not reached. The patterns
  of the \<^verbatim>\<open>LIKE\<close> tests are \<^verbatim>\<open>%text%\<close> with no wildcard inside the text: substring tests. The
  arguments are not null (\<^verbatim>\<open>trackUsage\<close> passes strings and numbers).
\<close>

definition calculate_ai_usage_cost :: "string \<Rightarrow> string \<Rightarrow> int \<Rightarrow> int \<Rightarrow> sql_error + rat" where
  "calculate_ai_usage_cost provider_name model_name prompt_tokens_count completion_tokens_count =
     (if provider_name = ''bedrock'' then
        (if str_includes model_name ''claude-3-sonnet'' then
           to_decimal_10_6 (of_int prompt_tokens_count * (3 / 1000000)
                            + of_int completion_tokens_count * (15 / 1000000))
         else if str_includes model_name ''claude-3-haiku'' then
           to_decimal_10_6 (of_int prompt_tokens_count * (25 / 100000000)
                            + of_int completion_tokens_count * (125 / 100000000))
         else if str_includes model_name ''titan'' then
           to_decimal_10_6 (of_int prompt_tokens_count * (5 / 10000000)
                            + of_int completion_tokens_count * (15 / 10000000))
         else Inl case_not_found)
      else if provider_name = ''openai'' then
        (if model_name = ''gpt-4'' then
           to_decimal_10_6 (of_int prompt_tokens_count * (3 / 100000)
                            + of_int completion_tokens_count * (6 / 100000))
         else if model_name = ''gpt-3.5-turbo'' then
           to_decimal_10_6 (of_int prompt_tokens_count * (1 / 1000000)
                            + of_int completion_tokens_count * (2 / 1000000))
         else Inl case_not_found)
      else Inl case_not_found)"

text \<open>The (provider, model) pairs that some \<^verbatim>\<open>WHEN\<close> branch prices.\<close>

definition has_pricing_entry :: "string \<Rightarrow> string \<Rightarrow> bool" where
  "has_pricing_entry provider_name model_name =
     (provider_name = ''bedrock'' \<and>
        (str_includes model_name ''claude-3-sonnet'' \<or> str_includes model_name ''claude-3-haiku''
         \<or> str_includes model_name ''titan'')
      \<or> provider_name = ''openai'' \<and> (model_name = ''gpt-4'' \<or> model_name = ''gpt-3.5-turbo''))"

text \<open>
  A row of \<^verbatim>\<open>ai_usage_tracking\<close> (\<open>row_id\<close> is the column \<^verbatim>\<open>id\<close>; \<^verbatim>\<open>created_at\<close> is left out), and
  the part of the database that \<^verbatim>\<open>track_ai_usage\<close> reads or writes: the keys of \<^verbatim>\<open>users\<close> and
  \<^verbatim>\<open>projects\<close>, which the foreign keys of the row refer to, and the table itself.
\<close>

record usage_row =
  row_id :: string
  user_id :: "string option"
  project_id :: "string option"
  ai_provider :: string
  ai_model :: string
  operation_type :: "string option"
  prompt_tokens :: int
  completion_tokens :: int
  total_tokens :: int
  cost_estimate :: rat
  processing_time :: "int option"
  success :: "bool option"
  error_message :: "string option"

record database =
  users :: "string set"
  projects :: "string set"
  ai_usage_tracking :: "usage_row list"

definition references_ok :: "string set \<Rightarrow> string option \<Rightarrow> bool" where
  "references_ok keys v = (case v of None \<Rightarrow> True | Some k \<Rightarrow> k \<in> keys)"

text \<open>
  \<^verbatim>\<open>track_ai_usage\<close>: the cost is computed first, then the row is inserted with
  \<^verbatim>\<open>prompt_tokens_count + completion_tokens_count\<close> as its total. \<open>new_id\<close> is the value of
  \<^verbatim>\<open>gen_random_uuid()\<close>. The result is the returned id and the new database.
\<close>

definition track_ai_usage ::
  "string \<Rightarrow> database \<Rightarrow> string option \<Rightarrow> string option \<Rightarrow> string \<Rightarrow> string \<Rightarrow> string option
     \<Rightarrow> int \<Rightarrow> int \<Rightarrow> int option \<Rightarrow> bool option \<Rightarrow> string option \<Rightarrow> sql_error + (string \<times> database)" where
  "track_ai_usage new_id db user_uuid project_uuid provider_name model_name operation
       prompt_tokens_count completion_tokens_count processing_time_ms success_flag error_msg =
     sum_bind (calculate_ai_usage_cost provider_name model_name prompt_tokens_count
                 completion_tokens_count) (\<lambda>calculated_cost.
     sum_bind (to_integer (prompt_tokens_count + completion_tokens_count)) (\<lambda>total.
       if references_ok (users db) user_uuid \<and> references_ok (projects db) project_uuid then
         Inr (new_id,
              db \<lparr> ai_usage_tracking := ai_usage_tracking db @
                     [\<lparr> row_id = new_id, user_id = user_uuid, project_id = project_uuid,
                        ai_provider = provider_name, ai_model = model_name,
                        operation_type = operation,
                        prompt_tokens = prompt_tokens_count,
                        completion_tokens = completion_tokens_count,
                        total_tokens = total,
                        cost_estimate = calculated_cost,
                        processing_time = processing_time_ms,
                        success = success_flag,
                        error_message = error_msg \<rparr>] \<rparr>)
       else Inl foreign_key_violation))"

definition example_database :: database where
  "example_database = \<lparr> users = {''u1''}, projects = {}, ai_usage_tracking = [] \<rparr>"

section \<open>Properties of the model-family classification\<close>

lemma getModelFamily_classify_with:
  "getModelFamily configModelId = classify_with vendor_checks (toLowerCase configModelId)"
  by (simp add: getModelFamily_def vendor_checks_def Let_def)

lemma classify_with_no_match:
  "matching_checks ident checks = [] \<Longrightarrow> classify_with checks ident = ''generic''"
  by (induction checks) (auto simp: matching_checks_def split: if_splits)

lemma classify_with_one_match:
  "matching_checks ident checks = [(tag, family)] \<Longrightarrow> classify_with checks ident = family"
proof (induction checks)
  case Nil
  then show ?case by (simp add: matching_checks_def)
next
  case (Cons c checks)
  obtain t f where c: "c = (t, f)" by (cases c)
  show ?case
  proof (cases "str_includes ident t")
    case True
    with Cons.prems c show ?thesis by (simp add: matching_checks_def)
  next
    case False
    with Cons.prems c have "matching_checks ident checks = [(tag, family)]"
      by (simp add: matching_checks_def)
    with Cons.IH False c show ?thesis by simp
  qed
qed

lemma matching_checks_mset:
  "mset perm = mset checks \<Longrightarrow>
   mset (matching_checks ident perm) = mset (matching_checks ident checks)"
  by (simp add: matching_checks_def)

lemma classify_with_reorder:
  assumes perm: "mset perm = mset checks"
    and one: "length (matching_checks ident checks) \<le> 1"
  shows "classify_with perm ident = classify_with checks ident"
proof (cases "matching_checks ident checks")
  case Nil
  with matching_checks_mset [OF perm, of ident]
  have "matching_checks ident perm = []" by simp
  with Nil show ?thesis by (simp add: classify_with_no_match)
next
  case (Cons c rest)
  with one have rest: "rest = []" by simp
  obtain t f where c: "c = (t, f)" by (cases c)
  from Cons rest c have m: "matching_checks ident checks = [(t, f)]" by simp
  with matching_checks_mset [OF perm, of ident]
  have "mset (matching_checks ident perm) = {#(t, f)#}" by simp
  then have "matching_checks ident perm = [(t, f)]" by simp
  with m show ?thesis by (simp add: classify_with_one_match)
qed

text \<open>
  C4, as stated, fails: the identifier \<^verbatim>\<open>claude-llama\<close> contains two vendor substrings, the
  source answers \<^verbatim>\<open>claude\<close>, and the same checks with \<^verbatim>\<open>llama\<close> tested first answer
  \<^verbatim>\<open>llama\<close>.
\<close>

theorem C4_reordering_counterexample:
  "mset [(''llama'', ''llama''), (''claude'', ''claude''), (''titan'', ''titan''),
         (''jurassic'', ''ai21''), (''cohere'', ''cohere'')] = mset vendor_checks
   \<and> getModelFamily ''claude-llama'' = ''claude''
   \<and> classify_with [(''llama'', ''llama''), (''claude'', ''claude''), (''titan'', ''titan''),
         (''jurassic'', ''ai21''), (''cohere'', ''cohere'')] (toLowerCase ''claude-llama'') = ''llama''"
  by (simp add: vendor_checks_def getModelFamily_def toLowerCase_def lower_char_def Let_def)

text \<open>
  C4, amended: for every model identifier whose lower-cased form contains at most one of the
  five vendor substrings, every re-ordering of the checks yields the family that
  \<^verbatim>\<open>getModelFamily\<close> returns.
\<close>

theorem C4_order_independent_single_tag:
  assumes "mset perm = mset vendor_checks"
    and "length (matching_checks (toLowerCase configModelId) vendor_checks) \<le> 1"
  shows "classify_with perm (toLowerCase configModelId) = getModelFamily configModelId"
  using classify_with_reorder [OF assms] by (simp add: getModelFamily_classify_with)

theorem C4_order_independent_single_tag_witness:
  "mset [(''cohere'', ''cohere''), (''jurassic'', ''ai21''), (''titan'', ''titan''),
         (''llama'', ''llama''), (''claude'', ''claude'')] = mset vendor_checks
   \<and> length (matching_checks (toLowerCase ''amazon.Titan-text-express-v1'') vendor_checks) \<le> 1
   \<and> classify_with [(''cohere'', ''cohere''), (''jurassic'', ''ai21''), (''titan'', ''titan''),
         (''llama'', ''llama''), (''claude'', ''claude'')] (toLowerCase ''amazon.Titan-text-express-v1'')
       = getModelFamily ''amazon.Titan-text-express-v1''
   \<and> getModelFamily ''amazon.Titan-text-express-v1'' = ''titan''"
proof -
  have p: "mset [(''cohere'', ''cohere''), (''jurassic'', ''ai21''), (''titan'', ''titan''),
         (''llama'', ''llama''), (''claude'', ''claude'')] = mset vendor_checks"
    by (simp add: vendor_checks_def)
  have l: "length (matching_checks (toLowerCase ''amazon.Titan-text-express-v1'') vendor_checks) \<le> 1"
    by code_simp
  have f: "getModelFamily ''amazon.Titan-text-express-v1'' = ''titan''"
    by code_simp
  show ?thesis using p l f C4_order_independent_single_tag [OF p l] by simp
qed

section \<open>Properties of the response normalisation\<close>

text \<open>
  C5, as stated, fails: a Claude wire response without a usage block normalises to a
  response whose \<^verbatim>\<open>usage\<close> is \<^verbatim>\<open>undefined\<close>. It holds no token counts, zero or other, and
  reading \<^verbatim>\<open>usage.promptTokens\<close> from it throws.
\<close>

theorem C5_zero_counts_counterexample:
  "get_prop (JObj [(''completion'', JStr ''ok''), (''stop_reason'', JStr ''stop_sequence'')])
      ''usage'' = Inr JUndefined
   \<and> (case normalize_response ''anthropic.claude-v2:1'' ''2024-05-01T00:00:00.000Z''
             ''2024-05-01T00:00:00.001Z'' Bedrock
             (JObj [(''completion'', JStr ''ok''), (''stop_reason'', JStr ''stop_sequence'')]) of
         Inl e \<Rightarrow> False
       | Inr r \<Rightarrow>
           usage r = JUndefined
           \<and> usage r \<noteq> JObj [(''promptTokens'', JNum 0), (''completionTokens'', JNum 0),
                               (''totalTokens'', JNum 0)]
           \<and> isl (get_prop (usage r) ''promptTokens''))"
  by code_simp

text \<open>
  C5, amended: for every model identifier (hence every family) and every wire response
  whose \<^verbatim>\<open>usage\<close> property is missing, the normalisation raises no error and returns a
  response whose \<^verbatim>\<open>usage\<close> is \<^verbatim>\<open>undefined\<close>: the token counts are absent, not zero.
\<close>

theorem C5_missing_usage_is_undefined:
  assumes "get_prop wire ''usage'' = Inr JUndefined"
  shows "\<exists>r. normalize_response configModelId t1 t2 prov wire = Inr r \<and> usage r = JUndefined"
  using assms
  by (cases wire)
     (auto simp: normalize_response_def parseResponse_def standardizeResponse_def sum_bind_def
                 Let_def
           split: option.splits)

theorem C5_missing_usage_is_undefined_witness:
  "get_prop (JObj [(''generation'', JStr ''ok'')]) ''usage'' = Inr JUndefined
   \<and> (\<exists>r. normalize_response ''meta.llama2-13b-chat-v1'' ''2024-05-01T00:00:00.000Z''
             ''2024-05-01T00:00:00.001Z'' Bedrock (JObj [(''generation'', JStr ''ok'')]) = Inr r
           \<and> usage r = JUndefined)"
proof -
  have h: "get_prop (JObj [(''generation'', JStr ''ok'')]) ''usage'' = Inr JUndefined"
    by simp
  show ?thesis
    using h C5_missing_usage_is_undefined [OF h] by simp
qed

text \<open>
  C6, as stated, fails: an empty Llama wire response normalises to the finish reason
  \<^verbatim>\<open>end_turn\<close>, not \<^verbatim>\<open>finished\<close>.
\<close>

theorem C6_finish_reason_counterexample:
  "text_field_absent (getModelFamily ''meta.llama2-13b-chat-v1'') (JObj [])
   \<and> (case normalize_response ''meta.llama2-13b-chat-v1'' ''2024-05-01T00:00:00.000Z''
             ''2024-05-01T00:00:00.001Z'' Bedrock (JObj []) of
         Inl e \<Rightarrow> False
       | Inr r \<Rightarrow> content r = JStr '''' \<and> stopReason (metadata r) = JStr ''end_turn''
                    \<and> stopReason (metadata r) \<noteq> JStr ''finished'')"
  by code_simp

text \<open>
  C6, amended: for every model identifier, a wire response whose text field is absent under
  the field names of its family normalises, without error, to a response whose content is
  the empty string. When the finish-reason field is absent as well, the finish reason is
  \<^verbatim>\<open>finished\<close> for the Titan family and for the families of the default branch (ai21,
  cohere, generic), \<^verbatim>\<open>end_turn\<close> for the Llama family, and \<^verbatim>\<open>undefined\<close> for the Claude
  family.
\<close>

theorem C6_absent_text_gives_empty_content:
  assumes "text_field_absent (getModelFamily configModelId) wire"
  shows "\<exists>r. normalize_response configModelId t1 t2 prov wire = Inr r \<and> content r = JStr ''''
     \<and> (finish_field_absent (getModelFamily configModelId) wire \<longrightarrow>
          stopReason (metadata r) =
            (if getModelFamily configModelId = ''claude'' then JUndefined
             else if getModelFamily configModelId = ''llama'' then JStr ''end_turn''
             else JStr ''finished''))"
  using assms
  by (cases wire)
     (auto simp: normalize_response_def parseResponse_def standardizeResponse_def sum_bind_def
                 Let_def text_field_absent_def finish_field_absent_def js_or_def
           split: option.splits if_splits)

theorem C6_absent_text_gives_empty_content_witness:
  "text_field_absent (getModelFamily ''amazon.titan-text-express-v1'') (JObj [(''results'', JArr [])])
   \<and> finish_field_absent (getModelFamily ''amazon.titan-text-express-v1'')
        (JObj [(''results'', JArr [])])
   \<and> (\<exists>r. normalize_response ''amazon.titan-text-express-v1'' ''2024-05-01T00:00:00.000Z''
             ''2024-05-01T00:00:00.001Z'' Bedrock (JObj [(''results'', JArr [])]) = Inr r
           \<and> content r = JStr '''' \<and> stopReason (metadata r) = JStr ''finished'')"
proof -
  have f: "getModelFamily ''amazon.titan-text-express-v1'' = ''titan''"
    by code_simp
  have h: "text_field_absent (getModelFamily ''amazon.titan-text-express-v1'')
             (JObj [(''results'', JArr [])])"
    unfolding f by (simp add: text_field_absent_def)
  have g: "finish_field_absent (getModelFamily ''amazon.titan-text-express-v1'')
             (JObj [(''results'', JArr [])])"
    unfolding f by (simp add: finish_field_absent_def)
  show ?thesis
    using h g f C6_absent_text_gives_empty_content [OF h] by auto
qed

section \<open>Properties of the failover\<close>

lemma attempt_provider: "attempt env now m n prov = Inr r \<Longrightarrow> provider r = prov"
  by (auto simp: attempt_def sum_bind_def standardizeResponse_def split: if_splits sum.splits)

lemmas exec_GenerateResponse = exec.simps [of _ _ _ "GenerateResponse u" for u]
lemmas exec_TryFallbackProviders = exec.simps [of _ _ _ "TryFallbackProviders fs" for fs]

text \<open>
  A run cannot return from a call on the first fallback provider while that provider keeps
  failing: its \<^verbatim>\<open>catch\<close> block starts the fallback loop again, and the loop starts with the
  same provider.
\<close>

lemma first_fallback_down:
  assumes "exec env now m c tr = Some y"
  shows "fallbackProviders m = fb # rest \<and> (\<forall>n. isl (attempt env now m n fb)) \<longrightarrow>
         c \<noteq> GenerateResponse (Some fb) \<and> c \<noteq> TryFallbackProviders (fb # rest)"
  using assms
proof (induction rule: exec.raw_induct[rotated 1, consumes 1])
  case (1 exec' env now m c tr y)
  note IH = "1"(1) and eq = "1"(2)
  show ?case
  proof (intro impI conjI notI)
    assume a: "fallbackProviders m = fb # rest \<and> (\<forall>n. isl (attempt env now m n fb))"
    assume c: "c = GenerateResponse (Some fb)"
    from a have "isl (attempt env now m (length tr) fb)" by blast
    then obtain e where "attempt env now m (length tr) fb = Inl e"
      by (cases "attempt env now m (length tr) fb") auto
    with eq c a
    have "exec' env now m (TryFallbackProviders (fb # rest)) (tr @ [fb]) = Some y"
      by simp
    from IH [OF this] a show False by simp
  next
    assume a: "fallbackProviders m = fb # rest \<and> (\<forall>n. isl (attempt env now m n fb))"
    assume c: "c = TryFallbackProviders (fb # rest)"
    with eq obtain z where "exec' env now m (GenerateResponse (Some fb)) tr = Some z"
      by (auto simp: Option.bind_eq_Some_conv)
    from IH [OF this] a show False by simp
  qed
qed

lemma generateResponse_diverges:
  assumes primary: "attempt env now m 0 (primary_provider m useProvider) = Inl e"
    and chain: "fallbackProviders m = fb # rest"
    and down: "\<forall>n. isl (attempt env now m n fb)"
  shows "generateResponse env now m useProvider = None"
proof -
  have "exec env now m (TryFallbackProviders (fb # rest)) [primary_provider m useProvider] = None"
  proof (cases "exec env now m (TryFallbackProviders (fb # rest)) [primary_provider m useProvider]")
    case None
    then show ?thesis .
  next
    case (Some y)
    from first_fallback_down [OF Some, of fb rest] chain down show ?thesis by simp
  qed
  with primary chain show ?thesis
    by (simp add: generateResponse_def exec_GenerateResponse primary_provider_def)
qed

text \<open>
  C1 fails on the code for K = 1. The provider asked for (Azure) is not set up, the first
  fallback (Bedrock) is down and the second fallback (the OpenAI placeholder) would answer:
  the claim promises the response of the second fallback. The call never gets to it and
  never returns, because the failed call on Bedrock restarts the fallback loop at Bedrock
  instead of letting the loop continue with OpenAI.
\<close>

theorem C1_second_fallback_never_reached:
  "isl (attempt bedrock_down ''2024-05-01T00:00:00.000Z'' example_manager 0 Azure)
   \<and> isl (attempt bedrock_down ''2024-05-01T00:00:00.000Z'' example_manager 1 Bedrock)
   \<and> \<not> isl (attempt bedrock_down ''2024-05-01T00:00:00.000Z'' example_manager 2 OpenAI)
   \<and> generateResponse bedrock_down ''2024-05-01T00:00:00.000Z'' example_manager (Some Azure) = None"
proof -
  have "generateResponse bedrock_down ''2024-05-01T00:00:00.000Z'' example_manager (Some Azure) = None"
    by (rule generateResponse_diverges [where fb = Bedrock and rest = "[OpenAI]"])
       (simp_all add: attempt_def example_manager_def bedrock_down_def sum_bind_def
          primary_provider_def)
  then show ?thesis
    by (simp add: attempt_def example_manager_def bedrock_down_def sum_bind_def
          openai_placeholder_def standardizeResponse_def)
qed

text \<open>
  The runs that the restart does not touch. When the attempt on the primary provider fails
  and the attempt on the first fallback provider succeeds, \<^verbatim>\<open>generateResponse\<close> returns the
  response of the first fallback provider, tagged with it, after exactly two attempts.
\<close>

lemma first_fallback_succeeds:
  assumes "attempt env now m 0 (primary_provider m useProvider) = Inl e"
    and "fallbackProviders m = fb # rest"
    and "attempt env now m 1 fb = Inr r"
  shows "generateResponse env now m useProvider = Some (Inr r, [primary_provider m useProvider, fb])
         \<and> provider r = fb"
  using assms attempt_provider [OF assms(3)]
  by (simp add: generateResponse_def exec_GenerateResponse exec_TryFallbackProviders
        primary_provider_def)

lemma first_fallback_succeeds_example:
  "\<exists>e r. attempt bedrock_down ''2024-05-01T00:00:00.000Z''
            (example_manager \<lparr> fallbackProviders := [OpenAI, Bedrock] \<rparr>) 0
            (primary_provider (example_manager \<lparr> fallbackProviders := [OpenAI, Bedrock] \<rparr>) None)
          = Inl e
     \<and> fallbackProviders (example_manager \<lparr> fallbackProviders := [OpenAI, Bedrock] \<rparr>)
          = OpenAI # [Bedrock]
     \<and> attempt bedrock_down ''2024-05-01T00:00:00.000Z''
            (example_manager \<lparr> fallbackProviders := [OpenAI, Bedrock] \<rparr>) 1 OpenAI = Inr r
     \<and> generateResponse bedrock_down ''2024-05-01T00:00:00.000Z''
            (example_manager \<lparr> fallbackProviders := [OpenAI, Bedrock] \<rparr>) None
          = Some (Inr r, [Bedrock, OpenAI])
     \<and> provider r = OpenAI \<and> content r = JStr ''OpenAI response placeholder''"
proof -
  let ?m = "example_manager \<lparr> fallbackProviders := [OpenAI, Bedrock] \<rparr>"
  let ?now = "''2024-05-01T00:00:00.000Z''"
  obtain r where r: "attempt bedrock_down ?now ?m 1 OpenAI = Inr r"
    and c: "content r = JStr ''OpenAI response placeholder''"
    by (simp add: attempt_def example_manager_def bedrock_down_def sum_bind_def
          openai_placeholder_def standardizeResponse_def js_or_def)
  have p: "primary_provider ?m None = Bedrock"
    by (simp add: primary_provider_def example_manager_def)
  have e: "attempt bedrock_down ?now ?m 0 (primary_provider ?m None)
             = Inl (Error ''Failed to generate response: fetch failed'')"
    unfolding p by (simp add: attempt_def example_manager_def bedrock_down_def sum_bind_def)
  have f: "fallbackProviders ?m = OpenAI # [Bedrock]"
    by simp
  from first_fallback_succeeds [OF e f r] e f r c p show ?thesis
    by auto
qed

text \<open>
  C2 fails on the code. Only Bedrock is set up, it is the primary provider and the whole
  fallback chain, and it is down, so every attempt fails: the claim promises one error that
  lists the two failures. The call returns no error at all: it never returns, and the
  \<^verbatim>\<open>throw\<close> that ends \<^verbatim>\<open>tryFallbackProviders\<close> is never reached.
\<close>

theorem C2_all_fail_never_returns:
  "isl (attempt (\<lambda>n p. Inl (Error ''Failed to generate response: fetch failed''))
          ''2024-05-01T00:00:00.000Z'' bedrock_only_manager 0 Bedrock)
   \<and> generateResponse (\<lambda>n p. Inl (Error ''Failed to generate response: fetch failed''))
        ''2024-05-01T00:00:00.000Z'' bedrock_only_manager None = None"
proof -
  have "generateResponse (\<lambda>n p. Inl (Error ''Failed to generate response: fetch failed''))
        ''2024-05-01T00:00:00.000Z'' bedrock_only_manager None = None"
    by (rule generateResponse_diverges [where fb = Bedrock and rest = "[]"])
       (simp_all add: attempt_def bedrock_only_manager_def sum_bind_def primary_provider_def)
  then show ?thesis
    by (simp add: attempt_def bedrock_only_manager_def sum_bind_def)
qed

text \<open>
  Without fallback providers the \<^verbatim>\<open>catch\<close> block rethrows the error of the primary provider
  after the one attempt.
\<close>

lemma no_fallback_rethrows:
  assumes "attempt env now m 0 (primary_provider m useProvider) = Inl e"
    and "fallbackProviders m = []"
  shows "generateResponse env now m useProvider = Some (Inl e, [primary_provider m useProvider])"
  using assms
  by (simp add: generateResponse_def exec_GenerateResponse primary_provider_def)

lemma no_fallback_rethrows_example:
  "attempt bedrock_down ''2024-05-01T00:00:00.000Z''
      (example_manager \<lparr> fallbackProviders := [] \<rparr>) 0
      (primary_provider (example_manager \<lparr> fallbackProviders := [] \<rparr>) (Some Azure))
     = Inl (Error ''Provider azure not initialized'')
   \<and> fallbackProviders (example_manager \<lparr> fallbackProviders := [] \<rparr>) = []
   \<and> generateResponse bedrock_down ''2024-05-01T00:00:00.000Z''
        (example_manager \<lparr> fallbackProviders := [] \<rparr>) (Some Azure)
     = Some (Inl (Error ''Provider azure not initialized''), [Azure])"
proof -
  let ?m = "example_manager \<lparr> fallbackProviders := [] \<rparr>"
  have p: "primary_provider ?m (Some Azure) = Azure"
    by (simp add: primary_provider_def)
  have e: "attempt bedrock_down ''2024-05-01T00:00:00.000Z'' ?m 0 (primary_provider ?m (Some Azure))
             = Inl (Error ''Provider azure not initialized'')"
    unfolding p by (simp add: attempt_def example_manager_def)
  have f: "fallbackProviders ?m = []"
    by simp
  from no_fallback_rethrows [OF e f] e f p show ?thesis
    by simp
qed

text \<open>
  C3 fails on the code. The provider asked for (Azure) is not set up and the chain is
  Bedrock, OpenAI; Bedrock fails twice and then answers. The run makes four attempts, more
  than 1 + 2, and three of them on Bedrock: a failed call on a fallback provider restarts the
  fallback loop from its first provider instead of moving on to the next one.
\<close>

theorem C3_same_provider_retried:
  "map_option snd
     (generateResponse bedrock_recovers ''2024-05-01T00:00:00.000Z'' example_manager (Some Azure))
   = Some [Azure, Bedrock, Bedrock, Bedrock]
   \<and> length [Azure, Bedrock, Bedrock, Bedrock] > 1 + length (fallbackProviders example_manager)"
  by (simp add: generateResponse_def exec_GenerateResponse exec_TryFallbackProviders
        example_manager_def bedrock_recovers_def attempt_def sum_bind_def
        standardizeResponse_def)

section \<open>Properties of the provider status\<close>

lemma eq_outside_update:
  assumes "eq_outside S c1 c2" and "distinct (map fst c1)"
  shows "eq_outside (S - {k}) (AList.update k v c1) (AList.update k v c2)"
  using assms unfolding eq_outside_def
proof (induction c1 c2 rule: list_all2_induct)
  case Nil
  then show ?case by simp
next
  case (Cons a c1 b c2)
  show ?case
  proof (cases "fst a = k")
    case True
    from Cons.prems True have "\<forall>x \<in> set c1. fst x \<noteq> k" by (auto simp: image_iff)
    with Cons.hyps(2) have "list_all2 (\<lambda>a b. fst a = fst b \<and> (fst a \<notin> S - {k} \<longrightarrow> snd a = snd b)) c1 c2"
      by (auto simp: list_all2_conv_all_nth)
    with True Cons.hyps(1) show ?thesis by simp
  next
    case False
    with Cons show ?thesis by auto
  qed
qed

lemma eq_outside_empty: "eq_outside {} c1 c2 \<Longrightarrow> c1 = c2"
  unfolding eq_outside_def
  by (induction c1 c2 rule: list_all2_induct) (auto simp: prod_eq_iff)

lemma same_eq_outside:
  "same_up_to_set_secrets c1 c2 \<Longrightarrow> eq_outside {''apiKey'', ''secretAccessKey''} c1 c2"
  unfolding same_up_to_set_secrets_def eq_outside_def
  by (erule list_all2_mono) (auto simp: is_secret_def)

lemma same_truthy:
  "same_up_to_set_secrets c1 c2 \<Longrightarrow>
   truthy (get_prop_opt (JObj c1) k) = truthy (get_prop_opt (JObj c2) k)"
  unfolding same_up_to_set_secrets_def
  by (induction c1 c2 rule: list_all2_induct) auto

lemma same_nonsecret:
  "same_up_to_set_secrets c1 c2 \<Longrightarrow> \<not> is_secret k \<Longrightarrow>
   get_prop_opt (JObj c1) k = get_prop_opt (JObj c2) k"
  unfolding same_up_to_set_secrets_def
  by (induction c1 c2 rule: list_all2_induct) auto

lemma mask_secrets_same:
  assumes "same_up_to_set_secrets c1 c2" and "distinct (map fst c1)"
  shows "mask_secrets (Some c1) = mask_secrets (Some c2)"
proof -
  let ?a1 = "if truthy (opt_field (Some c1) ''apiKey'') then JStr ''***masked***'' else JUndefined"
  let ?s1 = "if truthy (opt_field (Some c1) ''secretAccessKey'') then JStr ''***masked***'' else JUndefined"
  have a: "opt_field (Some c2) ''apiKey'' = get_prop_opt (JObj c2) ''apiKey''"
    "opt_field (Some c1) ''apiKey'' = get_prop_opt (JObj c1) ''apiKey''"
    "opt_field (Some c2) ''secretAccessKey'' = get_prop_opt (JObj c2) ''secretAccessKey''"
    "opt_field (Some c1) ''secretAccessKey'' = get_prop_opt (JObj c1) ''secretAccessKey''"
    by (simp_all add: opt_field_def)
  have e1: "eq_outside ({''apiKey'', ''secretAccessKey''} - {''apiKey''})
              (AList.update ''apiKey'' ?a1 c1) (AList.update ''apiKey'' ?a1 c2)"
    by (rule eq_outside_update [OF same_eq_outside [OF assms(1)] assms(2)])
  have d: "distinct (map fst (AList.update ''apiKey'' ?a1 c1))"
    using assms(2) by (simp add: distinct_update)
  have "eq_outside ({''apiKey'', ''secretAccessKey''} - {''apiKey''} - {''secretAccessKey''})
              (AList.update ''secretAccessKey'' ?s1 (AList.update ''apiKey'' ?a1 c1))
              (AList.update ''secretAccessKey'' ?s1 (AList.update ''apiKey'' ?a1 c2))"
    by (rule eq_outside_update [OF e1 d])
  then have "AList.update ''secretAccessKey'' ?s1 (AList.update ''apiKey'' ?a1 c1)
           = AList.update ''secretAccessKey'' ?s1 (AList.update ''apiKey'' ?a1 c2)"
    by (intro eq_outside_empty) simp
  then show ?thesis
    unfolding mask_secrets_def a
    using same_truthy [OF assms(1), of "''apiKey''"] same_truthy [OF assms(1), of "''secretAccessKey''"]
    by (simp add: a)
qed

lemma mask_secrets_map_of:
  "map_of (mask_secrets conf) =
     (map_of (case conf of None \<Rightarrow> [] | Some c \<Rightarrow> c))
       (''apiKey'' \<mapsto> shown_secret conf ''apiKey'',
        ''secretAccessKey'' \<mapsto> shown_secret conf ''secretAccessKey'')"
  by (simp add: mask_secrets_def shown_secret_def update_conv')

lemma mask_secrets_distinct:
  assumes "\<forall>c. conf = Some c \<longrightarrow> distinct (map fst c)"
  shows "distinct (map fst (mask_secrets conf))"
proof -
  from assms have "distinct (map fst (case conf of None \<Rightarrow> [] | Some c \<Rightarrow> c))"
    by (cases conf) simp_all
  then show ?thesis
    by (simp add: mask_secrets_def distinct_update)
qed

text \<open>
  The masking itself: in the masked copy, each of the two secret keys is present, its value
  is the constant or \<^verbatim>\<open>undefined\<close>, and no other entry carries the key.
\<close>

lemma mask_secrets_shows_no_secret:
  assumes d: "\<forall>c. conf = Some c \<longrightarrow> distinct (map fst c)"
    and k: "is_secret k"
  shows "map_of (mask_secrets conf) k = Some (shown_secret conf k)"
    and "(k, v) \<in> set (mask_secrets conf) \<Longrightarrow> v = shown_secret conf k"
proof -
  from k show m: "map_of (mask_secrets conf) k = Some (shown_secret conf k)"
    by (auto simp: mask_secrets_map_of is_secret_def)
  assume "(k, v) \<in> set (mask_secrets conf)"
  with mask_secrets_distinct [OF d] have "map_of (mask_secrets conf) k = Some v"
    by simp
  with m show "v = shown_secret conf k" by simp
qed

lemma getProviderStatus_config:
  assumes "getProviderStatus test now m p = Some st" and "status_config st = Some cfg"
  shows "cfg = mask_secrets (configs m p)"
  using assms
  by (auto simp: getProviderStatus_def Let_def split: if_splits sum.splits)

text \<open>
  C10: for any two states of the manager with the same providers whose configurations
  differ only in the value of an \<^verbatim>\<open>apiKey\<close> or \<^verbatim>\<open>secretAccessKey\<close> that is set in both, the
  \<^verbatim>\<open>config\<close> field of every status entry is the same in both states, and in that field a
  secret that is set is replaced by the constant \<^verbatim>\<open>'***masked***'\<close>: each of the two keys is
  present, its value is the constant when the secret is set and \<^verbatim>\<open>undefined\<close> when it is not,
  and no entry of the field carries any other value under these keys. The connection tests
  may answer differently in the two states, as long as they throw for the same providers (no
  \<^verbatim>\<open>testConnection\<close> of the source throws).
\<close>

theorem C10_status_masks_secrets:
  assumes "providers m1 = providers m2"
    and "\<forall>p. rel_option same_up_to_set_secrets (configs m1 p) (configs m2 p)"
    and "\<forall>p c. configs m1 p = Some c \<longrightarrow> distinct (map fst c)"
    and "\<forall>p. isl (test1 p) = isl (test2 p)"
  shows "map_option status_config (getProviderStatus test1 now1 m1 p)
       = map_option status_config (getProviderStatus test2 now2 m2 p)
     \<and> (\<forall>st cfg k.
           getProviderStatus test1 now1 m1 p = Some st \<and> status_config st = Some cfg
           \<and> is_secret k \<longrightarrow>
             map_of cfg k = Some (shown_secret (configs m1 p) k)
           \<and> (truthy (opt_field (configs m1 p) k) \<longrightarrow> map_of cfg k = Some (JStr ''***masked***''))
           \<and> (\<forall>v. (k, v) \<in> set cfg \<longrightarrow> v = shown_secret (configs m1 p) k))"
proof (intro conjI allI impI)
  have m: "mask_secrets (configs m1 p) = mask_secrets (configs m2 p)"
  proof (cases "configs m1 p")
    case None
    with assms(2) have "configs m2 p = None"
      by (metis option.rel_distinct(1) option.exhaust)
    with None show ?thesis by simp
  next
    case (Some c1)
    with assms(2) obtain c2 where c2: "configs m2 p = Some c2" and s: "same_up_to_set_secrets c1 c2"
      by (metis option_rel_Some1)
    from assms(3) Some have "distinct (map fst c1)" by blast
    from mask_secrets_same [OF s this] Some c2 show ?thesis by simp
  qed
  from assms(4) have "isl (test1 p) = isl (test2 p)" by blast
  with m assms(1)
  show "map_option status_config (getProviderStatus test1 now1 m1 p)
      = map_option status_config (getProviderStatus test2 now2 m2 p)"
    by (cases "test1 p"; cases "test2 p") (auto simp: getProviderStatus_def Let_def)
next
  fix st cfg k
  assume a: "getProviderStatus test1 now1 m1 p = Some st \<and> status_config st = Some cfg
             \<and> is_secret k"
  then have cfg: "cfg = mask_secrets (configs m1 p)"
    using getProviderStatus_config by blast
  from assms(3) have d: "\<forall>c. configs m1 p = Some c \<longrightarrow> distinct (map fst c)" by blast
  from a have k: "is_secret k" by simp
  show s: "map_of cfg k = Some (shown_secret (configs m1 p) k)"
    unfolding cfg by (rule mask_secrets_shows_no_secret(1) [OF d k])
  {
    assume "truthy (opt_field (configs m1 p) k)"
    with s show "map_of cfg k = Some (JStr ''***masked***'')"
      by (simp add: shown_secret_def)
  }
  {
    fix v
    assume "(k, v) \<in> set cfg"
    then show "v = shown_secret (configs m1 p) k"
      unfolding cfg by (rule mask_secrets_shows_no_secret(2) [OF d k])
  }
qed

theorem C10_status_masks_secrets_witness:
  "providers (secret_manager ''s3cr3t-one'' ''sk-key-one'')
     = providers (secret_manager ''another-s3cr3t'' ''sk-key-two'')
   \<and> (\<forall>p. rel_option same_up_to_set_secrets
              (configs (secret_manager ''s3cr3t-one'' ''sk-key-one'') p)
              (configs (secret_manager ''another-s3cr3t'' ''sk-key-two'') p))
   \<and> distinct (map fst (bedrock_secret_config ''s3cr3t-one''))
   \<and> distinct (map fst (openai_secret_config ''sk-key-one''))
   \<and> configs (secret_manager ''s3cr3t-one'' ''sk-key-one'') Bedrock
       \<noteq> configs (secret_manager ''another-s3cr3t'' ''sk-key-two'') Bedrock
   \<and> configs (secret_manager ''s3cr3t-one'' ''sk-key-one'') OpenAI
       \<noteq> configs (secret_manager ''another-s3cr3t'' ''sk-key-two'') OpenAI
   \<and> map_option status_config
        (getProviderStatus (\<lambda>p. Inr True) ''2024-05-01T00:00:00.000Z''
           (secret_manager ''s3cr3t-one'' ''sk-key-one'') Bedrock)
     = map_option status_config
        (getProviderStatus (\<lambda>p. Inr False) ''2024-05-02T00:00:00.000Z''
           (secret_manager ''another-s3cr3t'' ''sk-key-two'') Bedrock)
   \<and> map_option status_config
        (getProviderStatus (\<lambda>p. Inr True) ''2024-05-01T00:00:00.000Z''
           (secret_manager ''s3cr3t-one'' ''sk-key-one'') OpenAI)
     = map_option status_config
        (getProviderStatus (\<lambda>p. Inr False) ''2024-05-02T00:00:00.000Z''
           (secret_manager ''another-s3cr3t'' ''sk-key-two'') OpenAI)
   \<and> getProviderStatus (\<lambda>p. Inr True) ''2024-05-01T00:00:00.000Z''
        (secret_manager ''s3cr3t-one'' ''sk-key-one'') Bedrock
     = Some (Status True (JStr ''anthropic.claude-v2:1'') ''2024-05-01T00:00:00.000Z''
               [(''region'', JStr ''us-east-1''),
                (''secretAccessKey'', JStr ''***masked***''),
                (''modelId'', JStr ''anthropic.claude-v2:1''),
                (''apiKey'', JUndefined)])
   \<and> getProviderStatus (\<lambda>p. Inr True) ''2024-05-01T00:00:00.000Z''
        (secret_manager ''s3cr3t-one'' ''sk-key-one'') OpenAI
     = Some (Status True (JStr ''gpt-4'') ''2024-05-01T00:00:00.000Z''
               [(''provider'', JStr ''openai''),
                (''modelId'', JStr ''gpt-4''),
                (''apiKey'', JStr ''***masked***''),
                (''privacyMode'', JBool False),
                (''secretAccessKey'', JUndefined)])
   \<and> is_secret ''secretAccessKey'' \<and> is_secret ''apiKey''
   \<and> truthy (opt_field (configs (secret_manager ''s3cr3t-one'' ''sk-key-one'') Bedrock)
         ''secretAccessKey'')
   \<and> truthy (opt_field (configs (secret_manager ''s3cr3t-one'' ''sk-key-one'') OpenAI) ''apiKey'')
   \<and> map_of [(''region'', JStr ''us-east-1''),
              (''secretAccessKey'', JStr ''***masked***''),
              (''modelId'', JStr ''anthropic.claude-v2:1''),
              (''apiKey'', JUndefined)] ''secretAccessKey'' = Some (JStr ''***masked***'')
   \<and> map_of [(''provider'', JStr ''openai''),
              (''modelId'', JStr ''gpt-4''),
              (''apiKey'', JStr ''***masked***''),
              (''privacyMode'', JBool False),
              (''secretAccessKey'', JUndefined)] ''apiKey'' = Some (JStr ''***masked***'')"
proof -
  let ?mA = "secret_manager ''s3cr3t-one'' ''sk-key-one''"
  let ?mB = "secret_manager ''another-s3cr3t'' ''sk-key-two''"
  let ?t1 = "''2024-05-01T00:00:00.000Z''" and ?t2 = "''2024-05-02T00:00:00.000Z''"
  let ?cfgB = "[(''region'', JStr ''us-east-1''),
                (''secretAccessKey'', JStr ''***masked***''),
                (''modelId'', JStr ''anthropic.claude-v2:1''),
                (''apiKey'', JUndefined)]"
  let ?cfgO = "[(''provider'', JStr ''openai''),
                (''modelId'', JStr ''gpt-4''),
                (''apiKey'', JStr ''***masked***''),
                (''privacyMode'', JBool False),
                (''secretAccessKey'', JUndefined)]"
  have a: "providers ?mA = providers ?mB"
    by (simp add: secret_manager_def)
  have b: "\<forall>p. rel_option same_up_to_set_secrets (configs ?mA p) (configs ?mB p)"
    by (simp add: secret_manager_def bedrock_secret_config_def openai_secret_config_def
          same_up_to_set_secrets_def is_secret_def)
  have c: "\<forall>p c. configs ?mA p = Some c \<longrightarrow> distinct (map fst c)"
    by (auto simp: secret_manager_def bedrock_secret_config_def openai_secret_config_def
          split: if_splits)
  have d: "\<forall>p. isl ((\<lambda>p. Inr True :: js_error + bool) p)
              = isl ((\<lambda>p. Inr False :: js_error + bool) p)"
    by simp
  have sB: "getProviderStatus (\<lambda>p. Inr True) ?t1 ?mA Bedrock
              = Some (Status True (JStr ''anthropic.claude-v2:1'') ?t1 ?cfgB)"
    by (simp add: getProviderStatus_def secret_manager_def bedrock_secret_config_def
          mask_secrets_def opt_field_def js_or_def Let_def)
  have sO: "getProviderStatus (\<lambda>p. Inr True) ?t1 ?mA OpenAI
              = Some (Status True (JStr ''gpt-4'') ?t1 ?cfgO)"
    by (simp add: getProviderStatus_def secret_manager_def openai_secret_config_def
          mask_secrets_def opt_field_def js_or_def Let_def)
  have k: "is_secret ''secretAccessKey''" "is_secret ''apiKey''"
    by (simp_all add: is_secret_def)
  have tB: "truthy (opt_field (configs ?mA Bedrock) ''secretAccessKey'')"
    by (simp add: secret_manager_def bedrock_secret_config_def opt_field_def)
  have tO: "truthy (opt_field (configs ?mA OpenAI) ''apiKey'')"
    by (simp add: secret_manager_def openai_secret_config_def opt_field_def)
  have f: "configs ?mA Bedrock \<noteq> configs ?mB Bedrock" "configs ?mA OpenAI \<noteq> configs ?mB OpenAI"
    by (simp_all add: secret_manager_def bedrock_secret_config_def openai_secret_config_def)
  have dist: "distinct (map fst (bedrock_secret_config ''s3cr3t-one''))"
    "distinct (map fst (openai_secret_config ''sk-key-one''))"
    by (simp_all add: bedrock_secret_config_def openai_secret_config_def)
  note thB = C10_status_masks_secrets [OF a b c d, of ?t1 Bedrock ?t2]
  note thO = C10_status_masks_secrets [OF a b c d, of ?t1 OpenAI ?t2]
  from thB have eB: "map_option status_config (getProviderStatus (\<lambda>p. Inr True) ?t1 ?mA Bedrock)
      = map_option status_config (getProviderStatus (\<lambda>p. Inr False) ?t2 ?mB Bedrock)"
    by (rule conjunct1)
  from thO have eO: "map_option status_config (getProviderStatus (\<lambda>p. Inr True) ?t1 ?mA OpenAI)
      = map_option status_config (getProviderStatus (\<lambda>p. Inr False) ?t2 ?mB OpenAI)"
    by (rule conjunct1)
  from thB sB k(1) tB have mB: "map_of ?cfgB ''secretAccessKey'' = Some (JStr ''***masked***'')"
    by simp
  from thO sO k(2) tO have mO: "map_of ?cfgO ''apiKey'' = Some (JStr ''***masked***'')"
    by simp
  from a b dist f eB eO sB sO k tB tO mB mO show ?thesis
    by (intro conjI)
qed

section \<open>Properties of getConfig\<close>

lemma new_BedrockProvider_example: "new_BedrockProvider claude_heap 0 = Some claude_provider"
  by (simp add: new_BedrockProvider_def claude_heap_def claude_provider_def config_at_def
        heap_get_def claude_config_def)

text \<open>
  C9, as stated, fails: the copy is shallow. Pushing a stop sequence onto the array of the
  object that \<^verbatim>\<open>getConfig\<close> returned changes the array of the provider's own configuration,
  and the next request is built with the extra stop sequence.
\<close>

theorem C9_shared_array_counterexample:
  "(case getConfig claude_heap claude_provider of
      None \<Rightarrow> False
    | Some (r, h') \<Rightarrow>
        (case push_stopSequence h' r ''END'' of
           None \<Rightarrow> False
         | Some h'' \<Rightarrow>
             map_option req_stopSequences (buildRequest claude_heap claude_provider ''hi'')
               = Some (Some [''STOP''])
           \<and> map_option req_stopSequences (buildRequest h'' claude_provider ''hi'')
               = Some (Some [''STOP'', ''END''])))"
  by (simp add: getConfig_def claude_heap_def claude_provider_def config_at_def heap_get_def
        claude_config_def push_stopSequence_def array_at_def buildRequest_def getModelFamily_def
        toLowerCase_def lower_char_def Let_def buildClaudeRequest_def)

text \<open>
  C9, amended: \<^verbatim>\<open>getConfig\<close> returns a new object, a shallow copy. Whatever is written to that
  object or to objects allocated after it (every assignment to a property of the returned
  object is such a write) leaves the provider's configuration unchanged, and request
  building, family classification and the endpoint behave as if \<^verbatim>\<open>getConfig\<close> had not been
  called. The arrays the configuration refers to are shared with the copy.
\<close>

theorem C9_getConfig_fresh_object:
  assumes g: "getConfig h this = Some (r, h')"
    and ok: "arrays_allocated h this"
    and fr: "\<forall>a. a < length h' \<and> a \<noteq> r \<longrightarrow> heap_get h'' a = heap_get h' a"
  shows "config_at h'' (config this) = config_at h (config this)
       \<and> buildRequest h'' this prompt = buildRequest h this prompt
       \<and> provider_family h'' this = provider_family h this
       \<and> map_option (callBedrock_endpoint this) (buildRequest h'' this prompt)
           = map_option (callBedrock_endpoint this) (buildRequest h this prompt)"
proof -
  from g obtain c where c: "config_at h (config this) = Some c"
    and r: "r = length h" and h': "h' = h @ [ConfigObj c]"
    by (auto simp: getConfig_def)
  have old: "heap_get h'' a = heap_get h a" if "a < length h" for a
  proof -
    from that fr r h' have "heap_get h'' a = heap_get h' a" by simp
    also from that h' have "\<dots> = heap_get h a" by (simp add: heap_get_def nth_append)
    finally show ?thesis .
  qed
  from c have lt: "config this < length h"
    by (auto simp: config_at_def heap_get_def split: if_splits)
  with c have c'': "config_at h'' (config this) = Some c"
    by (simp add: config_at_def old)
  have arr: "array_at h'' a = array_at h a" if s: "stopSequences c = Some a" for a
  proof -
    from s ok c have "array_at h a \<noteq> None" by (simp add: arrays_allocated_def)
    then have "a < length h" by (auto simp: array_at_def heap_get_def split: if_splits)
    then show ?thesis by (simp add: array_at_def old)
  qed
  have "buildClaudeRequest h'' c prompt = buildClaudeRequest h c prompt"
    by (cases "stopSequences c") (simp_all add: buildClaudeRequest_def arr)
  moreover have "buildTitanRequest h'' c prompt = buildTitanRequest h c prompt"
    by (cases "stopSequences c") (simp_all add: buildTitanRequest_def arr)
  moreover have "buildLlamaRequest h'' c prompt = buildLlamaRequest h c prompt"
    by (simp add: buildLlamaRequest_def)
  moreover have "buildGenericRequest h'' c prompt = buildGenericRequest h c prompt"
    by (simp add: buildGenericRequest_def)
  ultimately show ?thesis using c c''
    by (simp add: buildRequest_def provider_family_def Let_def)
qed

theorem C9_getConfig_fresh_object_witness:
  "getConfig claude_heap claude_provider = Some (2, claude_heap @ [ConfigObj claude_config])
   \<and> arrays_allocated claude_heap claude_provider
   \<and> length (claude_heap @ [ConfigObj claude_config]) = 3
   \<and> list_all
        (\<lambda>a. heap_get (assign_config (claude_heap @ [ConfigObj claude_config]) 2
                      (claude_config \<lparr> region := ''eu-west-1'',
                                       modelId := ''meta.llama2-13b-chat-v1'',
                                       stopSequences := None \<rparr>)) a
              = heap_get (claude_heap @ [ConfigObj claude_config]) a)
        [0, 1]
   \<and> buildRequest (assign_config (claude_heap @ [ConfigObj claude_config]) 2
                      (claude_config \<lparr> region := ''eu-west-1'',
                                       modelId := ''meta.llama2-13b-chat-v1'',
                                       stopSequences := None \<rparr>)) claude_provider ''hi''
       = buildRequest claude_heap claude_provider ''hi''
   \<and> provider_family (assign_config (claude_heap @ [ConfigObj claude_config]) 2
                      (claude_config \<lparr> region := ''eu-west-1'',
                                       modelId := ''meta.llama2-13b-chat-v1'',
                                       stopSequences := None \<rparr>)) claude_provider
       = Some ''claude''"
proof -
  let ?h' = "claude_heap @ [ConfigObj claude_config]"
  let ?h'' = "assign_config ?h' 2 (claude_config \<lparr> region := ''eu-west-1'',
                 modelId := ''meta.llama2-13b-chat-v1'', stopSequences := None \<rparr>)"
  have g: "getConfig claude_heap claude_provider = Some (2, ?h')"
    by (simp add: getConfig_def claude_heap_def claude_provider_def config_at_def heap_get_def)
  have ok: "arrays_allocated claude_heap claude_provider"
    by (simp add: arrays_allocated_def claude_heap_def claude_provider_def config_at_def
          heap_get_def array_at_def claude_config_def)
  have fr: "\<forall>a. a < length ?h' \<and> a \<noteq> 2 \<longrightarrow> heap_get ?h'' a = heap_get ?h' a"
    by (simp add: heap_get_def assign_config_def)
  have fam: "provider_family claude_heap claude_provider = Some ''claude''"
    by (simp add: provider_family_def claude_heap_def claude_provider_def config_at_def
          heap_get_def claude_config_def getModelFamily_def toLowerCase_def lower_char_def Let_def)
  have len: "length ?h' = 3"
    by (simp add: claude_heap_def)
  have old: "list_all (\<lambda>a. heap_get ?h'' a = heap_get ?h' a) [0, 1]"
    by (simp add: heap_get_def assign_config_def claude_heap_def)
  from C9_getConfig_fresh_object [OF g ok fr, of "''hi''"] g ok len old fam show ?thesis
    by simp
qed

section \<open>Properties of the usage tracking\<close>

lemma unpriced_pair_raises:
  "\<not> has_pricing_entry provider_name model_name \<Longrightarrow>
   calculate_ai_usage_cost provider_name model_name prompt_tokens_count completion_tokens_count
     = Inl case_not_found"
  by (auto simp: has_pricing_entry_def calculate_ai_usage_cost_def)

text \<open>
  C7 fails on the code. Bedrock's Llama model, one of the models that the Bedrock provider
  lists as available, has no pricing entry; for it the cost function raises
  \<^verbatim>\<open>CASE_NOT_FOUND\<close> instead of returning the zero that \<^verbatim>\<open>cost\<close> was initialised with.
\<close>

theorem C7_unpriced_pair_raises:
  "\<not> has_pricing_entry ''bedrock'' ''meta.llama2-70b-chat-v1''
   \<and> calculate_ai_usage_cost ''bedrock'' ''meta.llama2-70b-chat-v1'' 120 80 = Inl case_not_found
   \<and> calculate_ai_usage_cost ''bedrock'' ''meta.llama2-70b-chat-v1'' 120 80 \<noteq> Inr 0"
  by (simp add: has_pricing_entry_def calculate_ai_usage_cost_def)

text \<open>
  C8: every call of \<^verbatim>\<open>track_ai_usage\<close> that succeeds appends exactly one row, and in that row
  the total is the sum of the prompt and completion tokens, which are the two arguments.
\<close>

theorem C8_total_is_sum:
  assumes "track_ai_usage new_id db user_uuid project_uuid provider_name model_name operation
             prompt_tokens_count completion_tokens_count processing_time_ms success_flag error_msg
           = Inr (rid, db')"
  shows "\<exists>row. ai_usage_tracking db' = ai_usage_tracking db @ [row]
            \<and> prompt_tokens row = prompt_tokens_count
            \<and> completion_tokens row = completion_tokens_count
            \<and> total_tokens row = prompt_tokens row + completion_tokens row"
  using assms
  by (auto simp: track_ai_usage_def sum_bind_def to_integer_def split: sum.splits if_splits)

theorem C8_total_is_sum_witness:
  "\<exists>rid db'.
     track_ai_usage ''row-1'' example_database (Some ''u1'') None ''bedrock''
        ''anthropic.claude-3-sonnet-20240229-v1:0'' (Some ''chat'') 1000 500 (Some 1250)
        (Some True) None = Inr (rid, db')
     \<and> (\<exists>row. ai_usage_tracking db' = ai_usage_tracking example_database @ [row]
            \<and> prompt_tokens row = 1000 \<and> completion_tokens row = 500
            \<and> total_tokens row = prompt_tokens row + completion_tokens row
            \<and> total_tokens row = 1500)"
proof -
  have e: "track_ai_usage ''row-1'' example_database (Some ''u1'') None ''bedrock''
        ''anthropic.claude-3-sonnet-20240229-v1:0'' (Some ''chat'') 1000 500 (Some 1250)
        (Some True) None
      = Inr (''row-1'',
             example_database \<lparr> ai_usage_tracking :=
               [\<lparr> row_id = ''row-1'', user_id = Some ''u1'', project_id = None,
                  ai_provider = ''bedrock'',
                  ai_model = ''anthropic.claude-3-sonnet-20240229-v1:0'',
                  operation_type = Some ''chat'',
                  prompt_tokens = 1000, completion_tokens = 500, total_tokens = 1500,
                  cost_estimate = 21 / 2000,
                  processing_time = Some 1250, success = Some True,
                  error_message = None \<rparr>] \<rparr>)"
    by code_simp
  from C8_total_is_sum [OF e] obtain row where
    "ai_usage_tracking (example_database \<lparr> ai_usage_tracking :=
               [\<lparr> row_id = ''row-1'', user_id = Some ''u1'', project_id = None,
                  ai_provider = ''bedrock'',
                  ai_model = ''anthropic.claude-3-sonnet-20240229-v1:0'',
                  operation_type = Some ''chat'',
                  prompt_tokens = 1000, completion_tokens = 500, total_tokens = 1500,
                  cost_estimate = 21 / 2000,
                  processing_time = Some 1250, success = Some True,
                  error_message = None \<rparr>] \<rparr>) = ai_usage_tracking example_database @ [row]"
    and "prompt_tokens row = 1000" and "completion_tokens row = 500"
    and "total_tokens row = prompt_tokens row + completion_tokens row"
    by blast
  with e show ?thesis by (intro exI conjI) auto
qed

end
